theory Spec2Isabelle
  imports Main "HOL-Library.Product_Lexorder"
begin

section \<open>Tuxemon save games: \<open>tuxemon/core/save.py\<close>\<close>

text \<open>
  The module loads a save slot from disk, decodes it (JSON first, CBOR second), migrates
  a version-0 save to the current key names, and finds the most recent of three slots.
  The embedding follows the source function by function. Everything a Python function
  does besides returning a value is explicit: a raised exception is the \<open>Inl\<close> branch of a
  sum, the file system is an argument, and the in-place mutation of the decoded
  dictionaries is written as the updated value that the function returns.
\<close>

subsection \<open>Values of a decoded save\<close>

text \<open>
  What \<open>json.load\<close> yields: \<open>None\<close>, booleans, integers, floats, strings, lists, and
  dictionaries with string keys. A dictionary is an association list in insertion order;
  the operations below keep its keys distinct when they start distinct. A finite float is
  a mantissa and a binary exponent: the code only asks whether it is zero. A decoded value
  is a tree (no two positions share one object), so an in-place update of a nested
  dictionary is the update of that position of the tree.
\<close>

datatype jval =
    JNull
  | JBool bool
  | JInt int
  | JFloat int int
  | JStr string
  | JList "jval list"
  | JDict "(string \<times> jval) list"

text \<open>The exception classes the module can meet, by the handler that catches them.\<close>

datatype exn =
    ValueError
  | IOError
  | KeyError
  | TypeError
  | AttributeError
  | NameError
  | EOFError

type_synonym 'a result = "exn + 'a"

text \<open>\<open>d.get(key, default)\<close> on a dictionary.\<close>

definition dict_get :: "(string \<times> jval) list \<Rightarrow> string \<Rightarrow> jval \<Rightarrow> jval" where
  "dict_get d key dflt = (case map_of d key of None \<Rightarrow> dflt | Some v \<Rightarrow> v)"

text \<open>\<open>d[key] = v\<close>: an existing key keeps its position, a new key goes last.\<close>

fun dict_set :: "(string \<times> 'v) list \<Rightarrow> string \<Rightarrow> 'v \<Rightarrow> (string \<times> 'v) list" where
  "dict_set [] key v = [(key, v)]"
| "dict_set ((k, w) # d) key v = (if k = key then (key, v) # d else (k, w) # dict_set d key v)"

text \<open>\<open>x[key]\<close> with a string key: only a dictionary can be indexed by a string.\<close>

definition getitem :: "jval \<Rightarrow> string \<Rightarrow> jval result" where
  "getitem x key =
     (case x of
        JDict d \<Rightarrow> (case map_of d key of None \<Rightarrow> Inl KeyError | Some v \<Rightarrow> Inr v)
      | _ \<Rightarrow> Inl TypeError)"

text \<open>\<open>x[key] = v\<close> with a string key.\<close>

definition setitem :: "jval \<Rightarrow> string \<Rightarrow> jval \<Rightarrow> jval result" where
  "setitem x key v =
     (case x of
        JDict d \<Rightarrow> Inr (JDict (dict_set d key v))
      | _ \<Rightarrow> Inl TypeError)"

text \<open>Truth value of an object, as \<open>if save_data:\<close> tests it.\<close>

fun truthy :: "jval \<Rightarrow> bool" where
  "truthy JNull = False"
| "truthy (JBool b) = b"
| "truthy (JInt n) = (n \<noteq> 0)"
| "truthy (JFloat m e) = (m \<noteq> 0)"
| "truthy (JStr s) = (s \<noteq> [])"
| "truthy (JList xs) = (xs \<noteq> [])"
| "truthy (JDict d) = (d \<noteq> [])"

text \<open>\<open>x == 0\<close>: true of the integer 0, of \<open>False\<close> and of a zero float, false of the rest.\<close>

fun eq_zero :: "jval \<Rightarrow> bool" where
  "eq_zero (JInt n) = (n = 0)"
| "eq_zero (JBool b) = (\<not> b)"
| "eq_zero (JFloat m e) = (m = 0)"
| "eq_zero _ = False"

text \<open>
  \<open>s.partition(sep)\<close> for a one-character separator: the part before the first
  separator, the separator, the part after it; without a separator
  \<open>(s, '''', '''')\<close>.
\<close>

definition partition_str :: "string \<Rightarrow> char \<Rightarrow> string \<times> string \<times> string" where
  "partition_str s sep =
     (case dropWhile (\<lambda>c. c \<noteq> sep) s of
        [] \<Rightarrow> (s, [], [])
      | _ # rest \<Rightarrow> (takeWhile (\<lambda>c. c \<noteq> sep) s, [sep], rest))"

text \<open>The expression \<open>key.partition("_")[2]\<close> of the migration.\<close>

definition strip_prefix :: "string \<Rightarrow> string" where
  "strip_prefix key = snd (snd (partition_str key (CHR ''_'')))"

subsection \<open>\<open>upgrade_save\<close>\<close>

text \<open>
  \<open>fix_items\<close>, the local function of \<open>upgrade_save\<close>: a dictionary comprehension over
  \<open>data.items()\<close>. Two keys with the same remainder collide: the first keeps the position,
  the last gives the value. Anything but a dictionary has no \<open>items\<close>.
\<close>

definition fix_items :: "jval \<Rightarrow> jval result" where
  "fix_items data =
     (case data of
        JDict d \<Rightarrow> Inr (JDict (foldl (\<lambda>acc (key, num). dict_set acc (strip_prefix key) num) [] d))
      | _ \<Rightarrow> Inl AttributeError)"

text \<open>
  The loop body \<open>mon['slug'] = mon['slug'].partition("_")[2]\<close>: \<open>mon\<close> must be a
  dictionary (\<open>TypeError\<close>) with a \<open>slug\<close> (\<open>KeyError\<close>) that is a string
  (\<open>AttributeError\<close>: no \<open>partition\<close>).
\<close>

definition fix_slug :: "jval \<Rightarrow> jval result" where
  "fix_slug mon =
     (case mon of
        JDict d \<Rightarrow>
          (case map_of d ''slug'' of
             None \<Rightarrow> Inl KeyError
           | Some (JStr s) \<Rightarrow> Inr (JDict (dict_set d ''slug'' (JStr (strip_prefix s))))
           | Some _ \<Rightarrow> Inl AttributeError)
      | _ \<Rightarrow> Inl TypeError)"

text \<open>\<open>for mon in mons\<close> over a list: the first exception ends the loop.\<close>

fun fix_mon_list :: "jval list \<Rightarrow> jval list result" where
  "fix_mon_list [] = Inr []"
| "fix_mon_list (mon # mons) =
     (case fix_slug mon of
        Inl e \<Rightarrow> Inl e
      | Inr mon' \<Rightarrow>
          (case fix_mon_list mons of
             Inl e \<Rightarrow> Inl e
           | Inr mons' \<Rightarrow> Inr (mon' # mons')))"

text \<open>
  \<open>for mon in mons\<close> for any object: a list is walked; an empty dictionary or string
  has nothing to walk; a non-empty one yields strings, which cannot be indexed by
  \<open>'slug'\<close>; the other objects are not iterable.
\<close>

definition fix_mons :: "jval \<Rightarrow> jval result" where
  "fix_mons mons =
     (case mons of
        JList ms \<Rightarrow> (case fix_mon_list ms of Inl e \<Rightarrow> Inl e | Inr ms' \<Rightarrow> Inr (JList ms'))
      | JDict [] \<Rightarrow> Inr (JDict [])
      | JStr [] \<Rightarrow> Inr (JStr [])
      | _ \<Rightarrow> Inl TypeError)"

text \<open>Writing a mutated child back where it was read from, if it was read from the parent.\<close>

definition put_back :: "(string \<times> jval) list \<Rightarrow> string \<Rightarrow> jval \<Rightarrow> (string \<times> jval) list" where
  "put_back d key v = (if map_of d key = None then d else dict_set d key v)"

text \<open>
  \<open>upgrade_save\<close>. \<open>chest\<close> is \<open>save_data['storage']\<close> itself when the key is there
  and a fresh dictionary that is dropped at the end otherwise. The two monster lists are
  read after both \<open>fix_items\<close> assignments and walked in order, the top-level one first.
  The function returns the object it was given, so the result is the record with the
  mutated children in place. No statement of the function assigns \<open>version\<close>.
\<close>

definition upgrade_save :: "jval \<Rightarrow> jval result" where
  "upgrade_save save_data =
     (case save_data of
        JDict sd \<Rightarrow>
          if eq_zero (dict_get sd ''version'' (JInt 0)) then
            (case fix_items (dict_get sd ''inventory'' (JDict [])) of
               Inl e \<Rightarrow> Inl e
             | Inr inventory \<Rightarrow>
                 (case dict_get sd ''storage'' (JDict []) of
                    JDict chest \<Rightarrow>
                      (case fix_items (dict_get chest ''items'' (JDict [])) of
                         Inl e \<Rightarrow> Inl e
                       | Inr items \<Rightarrow>
                           (let sd1 = dict_set sd ''inventory'' inventory;
                                chest1 = dict_set chest ''items'' items
                            in case fix_mons (dict_get sd1 ''monsters'' (JList [])) of
                                 Inl e \<Rightarrow> Inl e
                               | Inr mons \<Rightarrow>
                                   (case fix_mons (dict_get chest1 ''monsters'' (JList [])) of
                                      Inl e \<Rightarrow> Inl e
                                    | Inr chest_mons \<Rightarrow>
                                        Inr (JDict
                                          (put_back (put_back sd1 ''monsters'' mons) ''storage''
                                             (JDict (put_back chest1 ''monsters'' chest_mons)))))))
                  | _ \<Rightarrow> Inl AttributeError))
          else Inr save_data
      | _ \<Rightarrow> Inl AttributeError)"

text \<open>Applying the migration to its own result, an exception of the first call ending both.\<close>

definition upgrade_twice :: "jval \<Rightarrow> jval result" where
  "upgrade_twice r = (case upgrade_save r of Inl e \<Rightarrow> Inl e | Inr r' \<Rightarrow> upgrade_save r')"

subsection \<open>Slot files\<close>

text \<open>
  The decoders \<open>json.load\<close> and \<open>cbor.load\<close> are library code. A file that can be
  opened is described by what each of the two calls on the open file object does, in the
  order the module makes them: it returns a decoded value or raises. Both calls get the
  same handle and the module does not rewind it, so the second decoder starts where the
  first one stopped reading: \<open>json.load\<close> reads the whole file before it parses, and on
  a file that is not JSON \<open>cbor.load\<close> finds the handle at its end and raises
  \<open>EOFError\<close>. \<open>ValueError\<close> is the decoders' own failure on malformed input;
  \<open>NameError\<close> is what the name \<open>cbor\<close> raises when the import at the top of the
  module failed.
\<close>

datatype decoded = Decoded jval | Raises exn

record save_file =
  json_load :: decoded
  cbor_load :: decoded

text \<open>The file system: a path with no entry cannot be opened (\<open>IOError\<close>).\<close>

type_synonym filesystem = "string \<Rightarrow> save_file option"

text \<open>\<open>str(n)\<close> for an integer, as \<open>format\<close> renders the slot.\<close>

fun str_nat :: "nat \<Rightarrow> string" where
  "str_nat n =
     (if n < 10 then [''0123456789'' ! n]
      else str_nat (n div 10) @ [''0123456789'' ! (n mod 10)])"

declare str_nat.simps [simp del]

definition str_int :: "int \<Rightarrow> string" where
  "str_int i = (if i < 0 then CHR ''-'' # str_nat (nat (- i)) else str_nat (nat i))"

text \<open>
  \<open>'{}{}.save'.format(prepare.SAVE_PATH, slot)\<close>; the constant \<open>prepare.SAVE_PATH\<close>
  is defined outside this module and is an argument here.
\<close>

definition slot_path :: "string \<Rightarrow> int \<Rightarrow> string" where
  "slot_path SAVE_PATH slot = SAVE_PATH @ str_int slot @ ''.save''"

text \<open>
  \<open>open_save_file\<close>: the inner handlers catch \<open>ValueError\<close> only, the outer one
  \<open>IOError\<close> only, from \<open>open\<close> or from either decoder; any other exception leaves
  the function. \<open>None\<close> is \<open>JNull\<close>, the empty dictionary \<open>JDict []\<close>.
\<close>

definition open_save_file :: "filesystem \<Rightarrow> string \<Rightarrow> jval result" where
  "open_save_file fs save_path =
     (case fs save_path of
        None \<Rightarrow> Inr JNull
      | Some file \<Rightarrow>
          (case json_load file of
             Decoded v \<Rightarrow> Inr v
           | Raises ValueError \<Rightarrow>
               (case cbor_load file of
                  Decoded v \<Rightarrow> Inr v
                | Raises ValueError \<Rightarrow> Inr (JDict [])
                | Raises IOError \<Rightarrow> Inr JNull
                | Raises e \<Rightarrow> Inl e)
           | Raises IOError \<Rightarrow> Inr JNull
           | Raises e \<Rightarrow> Inl e))"

text \<open>
  \<open>load\<close>: a truthy object is migrated, \<open>None\<close> is returned as it is, and any other
  falsy object gets the two marker keys assigned (which only a dictionary accepts).
\<close>

definition load :: "filesystem \<Rightarrow> string \<Rightarrow> int \<Rightarrow> jval result" where
  "load fs SAVE_PATH slot =
     (case open_save_file fs (slot_path SAVE_PATH slot) of
        Inl e \<Rightarrow> Inl e
      | Inr save_data \<Rightarrow>
          if truthy save_data then upgrade_save save_data
          else if save_data = JNull then Inr JNull
          else
            (case setitem save_data ''error'' (JStr ''Save file corrupted'') of
               Inl e \<Rightarrow> Inl e
             | Inr save_data1 \<Rightarrow> setitem save_data1 ''player_name'' (JStr ''BROKEN SAVE!'')))"

subsection \<open>\<open>get_index_of_latest_save\<close>\<close>

text \<open>
  \<open>datetime.datetime.strptime(x, TIME_FORMAT)\<close> is library code and an argument
  \<open>strptime\<close> of the scan, from the string to the parsed time or an exception; an
  argument that is not a string is a \<open>TypeError\<close> before any parsing.
\<close>

definition strptime_arg :: "(string \<Rightarrow> 't result) \<Rightarrow> jval \<Rightarrow> 't result" where
  "strptime_arg strptime x = (case x of JStr s \<Rightarrow> strptime s | _ \<Rightarrow> Inl TypeError)"

text \<open>
  The loop over \<open>range(3)\<close>, with \<open>times\<close> as accumulator: slot file
  \<open>slot_index + 1\<close> is read, and whatever is not \<open>None\<close> is indexed by \<open>'time'\<close>.
\<close>

fun scan_slots ::
  "(string \<Rightarrow> 't result) \<Rightarrow> filesystem \<Rightarrow> string \<Rightarrow> int list \<Rightarrow> (int \<times> 't) list
     \<Rightarrow> (int \<times> 't) list result" where
  "scan_slots strptime fs SAVE_PATH [] slot_times = Inr slot_times"
| "scan_slots strptime fs SAVE_PATH (slot_index # rest) slot_times =
     (case open_save_file fs (slot_path SAVE_PATH (slot_index + 1)) of
        Inl e \<Rightarrow> Inl e
      | Inr save_data \<Rightarrow>
          if save_data \<noteq> JNull then
            (case getitem save_data ''time'' of
               Inl e \<Rightarrow> Inl e
             | Inr time_text \<Rightarrow>
                 (case strptime_arg strptime time_text of
                    Inl e \<Rightarrow> Inl e
                  | Inr time_of_save \<Rightarrow>
                      scan_slots strptime fs SAVE_PATH rest
                        (slot_times @ [(slot_index, time_of_save)])))
          else scan_slots strptime fs SAVE_PATH rest slot_times)"

text \<open>
  \<open>max(times, key=itemgetter(1))\<close> on a non-empty list: a later element replaces the
  best one only when its key is strictly greater, so the first maximum wins.
\<close>

definition max_by_time :: "(int \<times> 't::linorder) list \<Rightarrow> int \<times> 't" where
  "max_by_time slot_times =
     foldl (\<lambda>best x. if snd best < snd x then x else best) (hd slot_times) (tl slot_times)"

definition get_index_of_latest_save ::
  "(string \<Rightarrow> ('t::linorder) result) \<Rightarrow> filesystem \<Rightarrow> string \<Rightarrow> int option result" where
  "get_index_of_latest_save strptime fs SAVE_PATH =
     (case scan_slots strptime fs SAVE_PATH [0, 1, 2] [] of
        Inl e \<Rightarrow> Inl e
      | Inr slot_times \<Rightarrow>
          if length slot_times > 0 then Inr (Some (fst (max_by_time slot_times))) else Inr None)"

subsection \<open>The time format \<open>%Y-%m-%d %H:%M\<close>\<close>

text \<open>
  Modelled from the spec: \<open>datetime.datetime.strptime\<close> is library code and not part
  of the repository; the spec fixes the pattern \<open>YYYY-MM-DD HH:MM\<close>. This is a model of
  \<open>strptime\<close> for \<open>TIME_FORMAT\<close> on ASCII text, used for the concrete slots
  below. The library turns the format into a regular expression: four digits for the
  year; one or two digits for month, day, hour and minute, each within its range (a day may
  also be a space and one digit); at least one white-space character where the format has
  a space; nothing after the minute. Every field is followed by a character that is not a
  digit or by the end of the text, so a field is the whole run of digits found there.
  The date must exist. A parsed time is (year, month, day, hour, minute), compared
  lexicographically as \<open>datetime\<close> objects are.
\<close>

type_synonym datetime = "nat \<times> nat \<times> nat \<times> nat \<times> nat"

definition is_digit :: "char \<Rightarrow> bool" where
  "is_digit c = (c \<in> set ''0123456789'')"

definition is_space :: "char \<Rightarrow> bool" where
  "is_space c = (c \<in> set [CHR '' '', CHR 0x09, CHR 0x0A, CHR 0x0B, CHR 0x0C, CHR 0x0D])"

definition digit_value :: "char \<Rightarrow> nat" where
  "digit_value c = length (takeWhile (\<lambda>d. d \<noteq> c) ''0123456789'')"

definition number :: "string \<Rightarrow> nat" where
  "number ds = foldl (\<lambda>n c. 10 * n + digit_value c) 0 ds"

definition match_char :: "char \<Rightarrow> string \<Rightarrow> string option" where
  "match_char c s = (case s of [] \<Rightarrow> None | x # rest \<Rightarrow> if x = c then Some rest else None)"

definition match_year :: "string \<Rightarrow> (nat \<times> string) option" where
  "match_year s =
     (if length (take 4 s) = 4 \<and> list_all is_digit (take 4 s)
      then Some (number (take 4 s), drop 4 s) else None)"

definition match_field :: "nat \<Rightarrow> nat \<Rightarrow> string \<Rightarrow> (nat \<times> string) option" where
  "match_field lo hi s =
     (let ds = takeWhile is_digit s
      in if (length ds = 1 \<or> length ds = 2) \<and> lo \<le> number ds \<and> number ds \<le> hi
         then Some (number ds, dropWhile is_digit s) else None)"

definition match_day :: "string \<Rightarrow> (nat \<times> string) option" where
  "match_day s =
     (case match_char (CHR '' '') s of
        Some rest \<Rightarrow>
          (let ds = takeWhile is_digit rest
           in if length ds = 1 \<and> 1 \<le> number ds
              then Some (number ds, dropWhile is_digit rest) else None)
      | None \<Rightarrow> match_field 1 31 s)"

definition match_spaces :: "string \<Rightarrow> string option" where
  "match_spaces s = (if takeWhile is_space s = [] then None else Some (dropWhile is_space s))"

definition is_leap :: "nat \<Rightarrow> bool" where
  "is_leap y = (if y mod 400 = 0 then True else if y mod 100 = 0 then False else y mod 4 = 0)"

definition days_in_month :: "nat \<Rightarrow> nat \<Rightarrow> nat" where
  "days_in_month y m =
     (if m = 2 then (if is_leap y then 29 else 28)
      else if m = 4 \<or> m = 6 \<or> m = 9 \<or> m = 11 then 30 else 31)"

definition match_time_format :: "string \<Rightarrow> datetime option" where
  "match_time_format s =
     Option.bind (match_year s) (\<lambda>(Y, s1).
     Option.bind (match_char (CHR ''-'') s1) (\<lambda>s2.
     Option.bind (match_field 1 12 s2) (\<lambda>(m, s3).
     Option.bind (match_char (CHR ''-'') s3) (\<lambda>s4.
     Option.bind (match_day s4) (\<lambda>(d, s5).
     Option.bind (match_spaces s5) (\<lambda>s6.
     Option.bind (match_field 0 23 s6) (\<lambda>(H, s7).
     Option.bind (match_char (CHR '':'') s7) (\<lambda>s8.
     Option.bind (match_field 0 59 s8) (\<lambda>(M, s9).
     if s9 = [] then Some (Y, m, d, H, M) else None)))))))))"

definition strptime_time_format :: "string \<Rightarrow> datetime result" where
  "strptime_time_format s =
     (case match_time_format s of
        None \<Rightarrow> Inl ValueError
      | Some (Y, m, d, H, M) \<Rightarrow>
          if 1 \<le> Y \<and> d \<le> days_in_month Y m then Inr (Y, m, d, H, M) else Inl ValueError)"

subsection \<open>Example files\<close>

text \<open>
  A file whose text is not JSON, with the \<open>cbor\<close> package installed: the second
  decoder is handed the exhausted handle.
\<close>

definition garbage_file :: save_file where
  "garbage_file = \<lparr>json_load = Raises ValueError, cbor_load = Raises EOFError\<rparr>"

text \<open>The same file when the import of \<open>cbor\<close> failed.\<close>

definition garbage_file_no_cbor :: save_file where
  "garbage_file_no_cbor = \<lparr>json_load = Raises ValueError, cbor_load = Raises NameError\<rparr>"

text \<open>A JSON file holding \<open>v\<close>; the second decoder is never called on it.\<close>

definition json_file :: "jval \<Rightarrow> save_file" where
  "json_file v = \<lparr>json_load = Decoded v, cbor_load = Raises EOFError\<rparr>"

text \<open>The version-0 record of the migration example and the record it migrates to.\<close>

definition legacy_save :: jval where
  "legacy_save =
     JDict [(''inventory'', JDict [(''item_potion'', JInt 3)]),
            (''storage'',
               JDict [(''items'', JDict [(''item_elixir'', JInt 1)]),
                      (''monsters'',
                         JList [JDict [(''slug'', JStr ''mon_rattata''), (''level'', JInt 5)]])]),
            (''monsters'', JList [JDict [(''slug'', JStr ''mon_pidgey''), (''level'', JInt 2)]])]"

definition migrated_save :: jval where
  "migrated_save =
     JDict [(''inventory'', JDict [(''potion'', JInt 3)]),
            (''storage'',
               JDict [(''items'', JDict [(''elixir'', JInt 1)]),
                      (''monsters'',
                         JList [JDict [(''slug'', JStr ''rattata''), (''level'', JInt 5)]])]),
            (''monsters'', JList [JDict [(''slug'', JStr ''pidgey''), (''level'', JInt 2)]])]"

text \<open>Slots 1 and 2 hold JSON records with a \<open>time\<close>; there is no file for slot 3.\<close>

definition two_slots :: filesystem where
  "two_slots =
     [''slot1.save'' \<mapsto> json_file (JDict [(''time'', JStr ''2024-01-01 10:00'')]),
      ''slot2.save'' \<mapsto> json_file (JDict [(''time'', JStr ''2024-03-15 09:30'')])]"

text \<open>Slot 1 holds a JSON record, slot 2 a file whose text is not JSON.\<close>

definition garbage_second_slot :: filesystem where
  "garbage_second_slot =
     [''slot1.save'' \<mapsto> json_file (JDict [(''time'', JStr ''2024-01-01 10:00'')]),
      ''slot2.save'' \<mapsto> garbage_file]"



subsection \<open>The key rewrite, as a relation between a record and its migration\<close>

text \<open>
  The new name of a key or slug: the empty string when it has no underscore, and what
  follows its first underscore otherwise.
\<close>

definition new_key :: "string \<Rightarrow> string" where
  "new_key key =
     (if CHR ''_'' \<in> set key then tl (dropWhile (\<lambda>c. c \<noteq> CHR ''_'') key) else [])"

text \<open>
  \<open>d'\<close> is the dictionary \<open>d\<close> with every key renamed: its keys are distinct, and
  under a new name it holds the value of the last entry of \<open>d\<close> whose key gets that
  name (and nothing under a name that no key of \<open>d\<close> gets).
\<close>

definition rekeyed :: "(string \<times> jval) list \<Rightarrow> (string \<times> jval) list \<Rightarrow> bool" where
  "rekeyed d d' =
     (distinct (map fst d') \<and>
      map_of d' = map_of (rev (map (\<lambda>(key, num). (new_key key, num)) d)))"


subsection \<open>Records that the migration accepts\<close>

text \<open>A call returns when its result is a value and not an exception.\<close>

definition returns :: "'a result \<Rightarrow> bool" where
  "returns r = (case r of Inl e \<Rightarrow> False | Inr v \<Rightarrow> True)"

definition is_dict :: "jval \<Rightarrow> bool" where
  "is_dict v = (case v of JDict d \<Rightarrow> True | _ \<Rightarrow> False)"

text \<open>A monster entry is a dictionary with a string \<open>slug\<close>.\<close>

definition monster_ok :: "jval \<Rightarrow> bool" where
  "monster_ok mon =
     (case mon of
        JDict d \<Rightarrow> (case map_of d ''slug'' of Some (JStr s) \<Rightarrow> True | _ \<Rightarrow> False)
      | _ \<Rightarrow> False)"

text \<open>A monster list is a list of such entries, or an empty dictionary or string.\<close>

definition monsters_ok :: "jval \<Rightarrow> bool" where
  "monsters_ok mons =
     (case mons of
        JList ms \<Rightarrow> list_all monster_ok ms
      | JDict [] \<Rightarrow> True
      | JStr [] \<Rightarrow> True
      | _ \<Rightarrow> False)"

text \<open>
  The shape of a version-0 record that \<open>upgrade_save\<close> can migrate. Each of
  \<open>inventory\<close>, \<open>storage\<close>, \<open>storage.items\<close>, \<open>monsters\<close> and
  \<open>storage.monsters\<close> may be missing; one that is there must be a dictionary
  (the first three) or a monster list (the last two).
\<close>

definition migratable :: "(string \<times> jval) list \<Rightarrow> bool" where
  "migratable sd =
     ((case map_of sd ''inventory'' of None \<Rightarrow> True | Some v \<Rightarrow> is_dict v) \<and>
      (case map_of sd ''storage'' of
         None \<Rightarrow> True
       | Some (JDict chest) \<Rightarrow>
           (case map_of chest ''items'' of None \<Rightarrow> True | Some v \<Rightarrow> is_dict v) \<and>
           (case map_of chest ''monsters'' of None \<Rightarrow> True | Some v \<Rightarrow> monsters_ok v)
       | Some _ \<Rightarrow> False) \<and>
      (case map_of sd ''monsters'' of None \<Rightarrow> True | Some v \<Rightarrow> monsters_ok v))"

section \<open>Properties\<close>

subsection \<open>Paths\<close>

lemma slot_path_1: "slot_path ''slot'' 1 = ''slot1.save''"
  by (simp add: slot_path_def str_int_def str_nat.simps)

lemma slot_path_2: "slot_path ''slot'' 2 = ''slot2.save''"
  by (simp add: slot_path_def str_int_def str_nat.simps)

lemma slot_path_3: "slot_path ''slot'' 3 = ''slot3.save''"
  by (simp add: slot_path_def str_int_def str_nat.simps)

subsection \<open>Reading a slot\<close>

lemma open_save_file_missing: "fs save_path = None \<Longrightarrow> open_save_file fs save_path = Inr JNull"
  by (simp add: open_save_file_def)

text \<open>
  C5, what the code does against it. When the file opens, the JSON decoder fails with
  its decode error and the second decoder raises anything but \<open>ValueError\<close> and
  \<open>IOError\<close>, that exception leaves \<open>open_save_file\<close>: no corrupt outcome is
  returned. On a file that is not JSON the second decoder raises \<open>EOFError\<close>, or
  \<open>NameError\<close> without the \<open>cbor\<close> module.
\<close>

theorem open_save_file_propagates:
  assumes "fs save_path = Some file" and "json_load file = Raises ValueError"
    and "cbor_load file = Raises e" and "e \<noteq> ValueError" and "e \<noteq> IOError"
  shows "open_save_file fs save_path = Inl e"
  using assms by (cases e) (simp_all add: open_save_file_def)

theorem open_save_file_propagates_witness:
  "open_save_file [''slot1.save'' \<mapsto> garbage_file] ''slot1.save'' = Inl EOFError \<and>
   open_save_file [''slot1.save'' \<mapsto> garbage_file_no_cbor] ''slot1.save'' = Inl NameError"
proof -
  have eof: "open_save_file [''slot1.save'' \<mapsto> garbage_file] ''slot1.save'' = Inl EOFError"
    using open_save_file_propagates
      [of "[''slot1.save'' \<mapsto> garbage_file]" "''slot1.save''" garbage_file EOFError]
    by (simp add: garbage_file_def)
  have name:
    "open_save_file [''slot1.save'' \<mapsto> garbage_file_no_cbor] ''slot1.save'' = Inl NameError"
    using open_save_file_propagates
      [of "[''slot1.save'' \<mapsto> garbage_file_no_cbor]" "''slot1.save''" garbage_file_no_cbor
          NameError]
    by (simp add: garbage_file_no_cbor_def)
  from eof name show ?thesis by simp
qed

subsection \<open>\<open>load\<close>\<close>

text \<open>
  C9. For a slot whose file cannot be opened, \<open>load\<close> returns \<open>None\<close>; it does not
  raise.
\<close>

theorem load_missing_file:
  "fs (slot_path SAVE_PATH slot) = None \<Longrightarrow> load fs SAVE_PATH slot = Inr JNull"
  by (simp add: load_def open_save_file_def)

theorem load_missing_file_witness:
  "[''slot1.save'' \<mapsto> garbage_file] (slot_path ''slot'' 3) = None \<and>
   load [''slot1.save'' \<mapsto> garbage_file] ''slot'' 3 = Inr JNull"
  using load_missing_file [of "[''slot1.save'' \<mapsto> garbage_file]" "''slot''" 3]
  by (simp add: slot_path_3)

text \<open>
  C8, what the code does against it. For a slot whose file opens and is not JSON,
  \<open>load\<close> returns no record at all: the exception of the second decoder
  (\<open>EOFError\<close>, or \<open>NameError\<close> without the \<open>cbor\<close> module) goes through
  \<open>open_save_file\<close> and \<open>load\<close> to the caller.
\<close>

theorem load_propagates:
  assumes "fs (slot_path SAVE_PATH slot) = Some file" and "json_load file = Raises ValueError"
    and "cbor_load file = Raises e" and "e \<noteq> ValueError" and "e \<noteq> IOError"
  shows "load fs SAVE_PATH slot = Inl e"
  using assms by (cases e) (simp_all add: load_def open_save_file_def)

theorem load_propagates_witness:
  "load [''slot1.save'' \<mapsto> garbage_file] ''slot'' 1 = Inl EOFError \<and>
   load [''slot1.save'' \<mapsto> garbage_file_no_cbor] ''slot'' 1 = Inl NameError"
proof -
  have eof: "load [''slot1.save'' \<mapsto> garbage_file] ''slot'' 1 = Inl EOFError"
    using load_propagates
      [of "[''slot1.save'' \<mapsto> garbage_file]" "''slot''" 1 garbage_file EOFError]
    by (simp add: slot_path_1 garbage_file_def)
  have name: "load [''slot1.save'' \<mapsto> garbage_file_no_cbor] ''slot'' 1 = Inl NameError"
    using load_propagates
      [of "[''slot1.save'' \<mapsto> garbage_file_no_cbor]" "''slot''" 1 garbage_file_no_cbor
          NameError]
    by (simp add: slot_path_1 garbage_file_no_cbor_def)
  from eof name show ?thesis by simp
qed

text \<open>
  C10. For a slot whose file decodes (under the first codec, or under the second after
  the first failed) to the empty dictionary, \<open>load\<close> does not return the empty
  dictionary: the empty dictionary is falsy and not \<open>None\<close>, so the last branch runs
  and the record with the two marker keys is returned.
\<close>

theorem load_empty_record:
  assumes "fs (slot_path SAVE_PATH slot) = Some file"
    and "json_load file = Decoded (JDict []) \<or>
         json_load file = Raises ValueError \<and> cbor_load file = Decoded (JDict [])"
  shows "load fs SAVE_PATH slot =
           Inr (JDict [(''error'', JStr ''Save file corrupted''),
                       (''player_name'', JStr ''BROKEN SAVE!'')]) \<and>
         load fs SAVE_PATH slot \<noteq> Inr (JDict [])"
  using assms by (auto simp add: load_def open_save_file_def setitem_def)

theorem load_empty_record_witness:
  "load [''slot1.save'' \<mapsto> json_file (JDict [])] ''slot'' 1 =
     Inr (JDict [(''error'', JStr ''Save file corrupted''),
                 (''player_name'', JStr ''BROKEN SAVE!'')]) \<and>
   load [''slot1.save'' \<mapsto> json_file (JDict [])] ''slot'' 1 \<noteq> Inr (JDict [])"
  using load_empty_record
    [of "[''slot1.save'' \<mapsto> json_file (JDict [])]" "''slot''" 1 "json_file (JDict [])"]
  by (simp add: slot_path_1 json_file_def)

subsection \<open>Dictionaries and the key rewrite\<close>

lemma map_of_dict_set: "map_of (dict_set d key v) = (map_of d)(key \<mapsto> v)"
  by (induction d key v rule: dict_set.induct) auto

lemma dict_get_dict_set_other:
  "k \<noteq> key \<Longrightarrow> dict_get (dict_set d key v) k dflt = dict_get d k dflt"
  by (simp add: dict_get_def map_of_dict_set)


text \<open>With an underscore, it is what follows the first one.\<close>

lemma strip_prefix_underscore:
  "CHR ''_'' \<notin> set p \<Longrightarrow> strip_prefix (p @ CHR ''_'' # rest) = rest"
proof -
  assume "CHR ''_'' \<notin> set p"
  then have "dropWhile (\<lambda>c. c \<noteq> CHR ''_'') (p @ CHR ''_'' # rest) = CHR ''_'' # rest"
    by (subst dropWhile_append2) auto
  then show ?thesis by (simp add: strip_prefix_def partition_str_def)
qed

lemma strip_item_potion: "strip_prefix ''item_potion'' = ''potion''"
  by (simp add: strip_prefix_def partition_str_def)

lemma strip_item_elixir: "strip_prefix ''item_elixir'' = ''elixir''"
  by (simp add: strip_prefix_def partition_str_def)

lemma strip_mon_rattata: "strip_prefix ''mon_rattata'' = ''rattata''"
  by (simp add: strip_prefix_def partition_str_def)

lemma strip_mon_pidgey: "strip_prefix ''mon_pidgey'' = ''pidgey''"
  by (simp add: strip_prefix_def partition_str_def)

lemma strip_potion: "strip_prefix ''potion'' = []"
  by (simp add: strip_prefix_def partition_str_def)


lemmas upgrade_defs =
  upgrade_save_def upgrade_twice_def dict_get_def fix_items_def fix_mons_def fix_slug_def
  put_back_def

subsection \<open>When the pieces of the migration return\<close>

lemma fix_items_returns: "(\<exists>v. fix_items data = Inr v) = is_dict data"
  by (cases data) (simp_all add: fix_items_def is_dict_def)

lemma fix_items_Inl: "fix_items data = Inl e \<Longrightarrow> \<not> is_dict data"
  using fix_items_returns [of data] by auto

lemma fix_items_Inr: "fix_items data = Inr v \<Longrightarrow> is_dict data"
  using fix_items_returns [of data] by auto

lemma fix_slug_returns: "(\<exists>m. fix_slug mon = Inr m) = monster_ok mon"
  by (auto simp add: fix_slug_def monster_ok_def split: jval.splits option.splits)

lemma fix_mon_list_returns: "(\<exists>ms'. fix_mon_list ms = Inr ms') = list_all monster_ok ms"
proof (induction ms)
  case Nil
  show ?case by simp
next
  case (Cons mon ms)
  show ?case
  proof (cases "fix_slug mon")
    case (Inl e)
    with fix_slug_returns [of mon] show ?thesis by auto
  next
    case (Inr m)
    with fix_slug_returns [of mon] have "monster_ok mon" by auto
    with Inr Cons.IH show ?thesis by (cases "fix_mon_list ms") auto
  qed
qed

lemma fix_mons_returns: "(\<exists>v. fix_mons mons = Inr v) = monsters_ok mons"
proof (cases mons)
  case (JList ms)
  with fix_mon_list_returns [of ms] show ?thesis
    by (cases "fix_mon_list ms") (auto simp add: fix_mons_def monsters_ok_def)
qed (auto simp add: fix_mons_def monsters_ok_def split: list.splits)

lemma fix_mons_Inl: "fix_mons data = Inl e \<Longrightarrow> \<not> monsters_ok data"
  using fix_mons_returns [of data] by auto

lemma fix_mons_Inr: "fix_mons data = Inr v \<Longrightarrow> monsters_ok data"
  using fix_mons_returns [of data] by auto

text \<open>The shape condition, read through the defaults the code uses.\<close>

lemma migratable_alt:
  "migratable sd =
     (is_dict (dict_get sd ''inventory'' (JDict [])) \<and>
      (case dict_get sd ''storage'' (JDict []) of
         JDict chest \<Rightarrow>
           is_dict (dict_get chest ''items'' (JDict [])) \<and>
           monsters_ok (dict_get chest ''monsters'' (JList []))
       | _ \<Rightarrow> False) \<and>
      monsters_ok (dict_get sd ''monsters'' (JList [])))"
  by (auto simp add: migratable_def dict_get_def is_dict_def monsters_ok_def
      split: option.splits jval.splits)

lemma upgrade_save_returns_version0:
  assumes v0: "eq_zero (dict_get sd ''version'' (JInt 0))"
  shows "returns (upgrade_save (JDict sd)) = migratable sd"
proof (cases "fix_items (dict_get sd ''inventory'' (JDict []))")
  case (Inl e)
  then have "\<not> is_dict (dict_get sd ''inventory'' (JDict []))" by (rule fix_items_Inl)
  with Inl v0 show ?thesis by (simp add: upgrade_save_def returns_def migratable_alt)
next
  case inv: (Inr inventory)
  then have inv_ok: "is_dict (dict_get sd ''inventory'' (JDict []))" by (rule fix_items_Inr)
  show ?thesis
  proof (cases "dict_get sd ''storage'' (JDict [])")
    case chest: (JDict chest)
    show ?thesis
    proof (cases "fix_items (dict_get chest ''items'' (JDict []))")
      case (Inl e)
      then have "\<not> is_dict (dict_get chest ''items'' (JDict []))" by (rule fix_items_Inl)
      with Inl v0 inv chest show ?thesis
        by (simp add: upgrade_save_def returns_def migratable_alt)
    next
      case items: (Inr items)
      then have items_ok: "is_dict (dict_get chest ''items'' (JDict []))" by (rule fix_items_Inr)
      have m1: "dict_get (dict_set sd ''inventory'' inventory) ''monsters'' (JList []) =
                dict_get sd ''monsters'' (JList [])"
        by (simp add: dict_get_dict_set_other)
      have m2: "dict_get (dict_set chest ''items'' items) ''monsters'' (JList []) =
                dict_get chest ''monsters'' (JList [])"
        by (simp add: dict_get_dict_set_other)
      show ?thesis
      proof (cases "fix_mons (dict_get sd ''monsters'' (JList []))")
        case (Inl e)
        then have "\<not> monsters_ok (dict_get sd ''monsters'' (JList []))" by (rule fix_mons_Inl)
        with Inl v0 inv chest items m1 show ?thesis
          by (simp add: upgrade_save_def returns_def migratable_alt)
      next
        case mons: (Inr mons)
        then have mons_ok: "monsters_ok (dict_get sd ''monsters'' (JList []))"
          by (rule fix_mons_Inr)
        show ?thesis
        proof (cases "fix_mons (dict_get chest ''monsters'' (JList []))")
          case (Inl e)
          then have "\<not> monsters_ok (dict_get chest ''monsters'' (JList []))"
            by (rule fix_mons_Inl)
          with Inl v0 inv chest items mons m1 m2 show ?thesis
            by (simp add: upgrade_save_def returns_def migratable_alt)
        next
          case (Inr chest_mons)
          then have "monsters_ok (dict_get chest ''monsters'' (JList []))"
            by (rule fix_mons_Inr)
          with Inr v0 inv chest items mons m1 m2 inv_ok items_ok mons_ok show ?thesis
            by (simp add: upgrade_save_def returns_def migratable_alt)
        qed
      qed
    qed
  qed (simp_all add: v0 inv upgrade_save_def returns_def migratable_alt)
qed

lemma upgrade_save_dict: "upgrade_save (JDict sd) = Inr r \<Longrightarrow> is_dict r"
  by (auto simp add: upgrade_save_def is_dict_def Let_def split: if_splits sum.splits jval.splits)

text \<open>A record with no field at all gets an empty inventory and nothing else.\<close>

lemma upgrade_save_empty_record: "upgrade_save (JDict []) = Inr (JDict [(''inventory'', JDict [])])"
  by (simp add: upgrade_defs)

subsection \<open>The key rewrite on whole dictionaries and lists\<close>

















subsection \<open>\<open>upgrade_save\<close>\<close>

text \<open>
  C1, as the code has it. A record whose \<open>version\<close> is there and is not equal to 0
  (the current version 1 among them) is returned unchanged, and on such a record applying
  the migration twice is applying it once.
\<close>

theorem upgrade_save_versioned_unchanged:
  assumes "map_of sd ''version'' = Some v" and "\<not> eq_zero v"
  shows "upgrade_save (JDict sd) = Inr (JDict sd) \<and>
         upgrade_twice (JDict sd) = upgrade_save (JDict sd)"
  using assms by (simp add: upgrade_save_def upgrade_twice_def dict_get_def)

theorem upgrade_save_versioned_unchanged_witness:
  "upgrade_save (JDict [(''version'', JInt 1), (''inventory'', JDict [(''item_potion'', JInt 3)])]) =
     Inr (JDict [(''version'', JInt 1), (''inventory'', JDict [(''item_potion'', JInt 3)])]) \<and>
   upgrade_twice (JDict [(''version'', JInt 1), (''inventory'', JDict [(''item_potion'', JInt 3)])]) =
     upgrade_save (JDict [(''version'', JInt 1), (''inventory'', JDict [(''item_potion'', JInt 3)])])"
  using upgrade_save_versioned_unchanged
    [of "[(''version'', JInt 1), (''inventory'', JDict [(''item_potion'', JInt 3)])]" "JInt 1"]
  by simp

text \<open>
  C1 as stated fails on a version-0 record: the migration leaves the record without a
  \<open>version\<close>, so a second application strips the keys once more.
\<close>

theorem upgrade_save_not_idempotent:
  "upgrade_save (JDict [(''inventory'', JDict [(''item_potion'', JInt 3)])]) =
     Inr (JDict [(''inventory'', JDict [(''potion'', JInt 3)])]) \<and>
   upgrade_twice (JDict [(''inventory'', JDict [(''item_potion'', JInt 3)])]) =
     Inr (JDict [(''inventory'', JDict [([], JInt 3)])]) \<and>
   upgrade_twice (JDict [(''inventory'', JDict [(''item_potion'', JInt 3)])]) \<noteq>
     upgrade_save (JDict [(''inventory'', JDict [(''item_potion'', JInt 3)])])"
  by (simp add: upgrade_defs strip_item_potion strip_potion)

text \<open>
  C2, as the code has it. The example record migrates to inventory \<open>potion\<close> 3, chest
  item \<open>elixir\<close> 1, chest monster \<open>rattata\<close> and monster \<open>pidgey\<close>, levels kept; the
  result has no \<open>version\<close> key.
\<close>

theorem upgrade_save_legacy_example:
  "upgrade_save legacy_save = Inr migrated_save \<and>
   getitem migrated_save ''version'' = Inl KeyError"
  by (simp add: legacy_save_def migrated_save_def upgrade_defs getitem_def
      strip_item_potion strip_item_elixir strip_mon_rattata strip_mon_pidgey)

text \<open>C2 as stated fails in its last part: the \<open>version\<close> of the result is not 1.\<close>

theorem upgrade_save_legacy_example_no_version:
  "upgrade_save legacy_save = Inr migrated_save \<and>
   getitem migrated_save ''version'' \<noteq> Inr (JInt 1)"
  by (simp add: legacy_save_def migrated_save_def upgrade_defs getitem_def
      strip_item_potion strip_item_elixir strip_mon_rattata strip_mon_pidgey)



text \<open>So a key without an underscore leaves the empty key behind in the migrated dictionary.\<close>

lemma rekeyed_plain_key:
  assumes "rekeyed d d'" and "(key, num) \<in> set d" and "CHR ''_'' \<notin> set key"
  shows "[] \<in> fst ` set d'"
proof -
  from assms(2,3) have "([], num) \<in> set (rev (map (\<lambda>(key, num). (new_key key, num)) d))"
    by (force simp add: new_key_def)
  then have "[] \<in> fst ` set (rev (map (\<lambda>(key, num). (new_key key, num)) d))"
    by (metis fst_conv image_eqI)
  then have "[] \<in> dom (map_of (rev (map (\<lambda>(key, num). (new_key key, num)) d)))"
    by (simp only: dom_map_of_conv_image_fst)
  with assms(1) have "[] \<in> dom (map_of d')" by (simp add: rekeyed_def)
  then show ?thesis by (simp add: dom_map_of_conv_image_fst)
qed


text \<open>
  C7, as the code has it. \<open>upgrade_save\<close> returns a record exactly when the record's
  version is not 0 or the record has the shape \<open>migratable\<close>: missing \<open>inventory\<close>,
  \<open>storage\<close>, \<open>items\<close> and monster lists count as empty; an inventory, a storage and
  its items that are there must be dictionaries; a monster list that is there must be a
  list of dictionaries that each have a string \<open>slug\<close>, or an empty dictionary or an
  empty string, over which the loop runs no step.
\<close>

theorem upgrade_save_returns_iff:
  "(\<exists>sd'. upgrade_save (JDict sd) = Inr (JDict sd')) =
     (if eq_zero (dict_get sd ''version'' (JInt 0)) then migratable sd else True)"
proof (cases "eq_zero (dict_get sd ''version'' (JInt 0))")
  case False
  then show ?thesis by (simp add: upgrade_save_def)
next
  case True
  have "(\<exists>sd'. upgrade_save (JDict sd) = Inr (JDict sd')) = returns (upgrade_save (JDict sd))"
  proof (cases "upgrade_save (JDict sd)")
    case (Inl e)
    then show ?thesis by (simp add: returns_def)
  next
    case (Inr r)
    with upgrade_save_dict [OF Inr] show ?thesis
      by (cases r) (simp_all add: returns_def is_dict_def)
  qed
  with True upgrade_save_returns_version0 [OF True] show ?thesis by simp
qed

theorem upgrade_save_returns_iff_witness:
  "(\<exists>sd'. upgrade_save (JDict []) = Inr (JDict sd')) \<and> migratable []"
  using upgrade_save_returns_iff [of "[]"] by (simp add: dict_get_def migratable_def)

text \<open>
  C7 as stated fails: a monster without a \<open>slug\<close> raises \<open>KeyError\<close>, and an
  inventory that is not a dictionary raises \<open>AttributeError\<close>.
\<close>

theorem upgrade_save_missing_slug_raises:
  "upgrade_save (JDict [(''monsters'', JList [JDict [(''level'', JInt 2)]])]) = Inl KeyError \<and>
   upgrade_save (JDict [(''inventory'', JInt 5)]) = Inl AttributeError"
  by (simp add: upgrade_defs)

subsection \<open>\<open>get_index_of_latest_save\<close>\<close>

lemma strptime_first: "strptime_time_format ''2024-01-01 10:00'' = Inr (2024, 1, 1, 10, 0)"
  by code_simp

lemma strptime_second: "strptime_time_format ''2024-03-15 09:30'' = Inr (2024, 3, 15, 9, 30)"
  by code_simp

lemma first_before_second: "((2024, 1, 1, 10, 0) :: datetime) < (2024, 3, 15, 9, 30)"
  by (simp add: less_prod_def)

lemma open_two_slots_1:
  "open_save_file two_slots (slot_path ''slot'' 1) =
     Inr (JDict [(''time'', JStr ''2024-01-01 10:00'')])"
  by (simp add: slot_path_1 two_slots_def open_save_file_def json_file_def)

lemma open_two_slots_2:
  "open_save_file two_slots (slot_path ''slot'' 2) =
     Inr (JDict [(''time'', JStr ''2024-03-15 09:30'')])"
  by (simp add: slot_path_2 two_slots_def open_save_file_def json_file_def)

lemma two_slots_3: "two_slots (slot_path ''slot'' 3) = None"
  by (simp add: slot_path_3 two_slots_def)

text \<open>
  C3, as the code has it. With slots 1 and 2 readable, their times
  \<open>2024-01-01 10:00\<close> and \<open>2024-03-15 09:30\<close>, and no file for slot 3, the result is
  1: the position in \<open>range(3)\<close> of slot 2, the slot with the later time.
\<close>

theorem latest_of_two_slots:
  assumes "open_save_file fs (slot_path SAVE_PATH 1) = Inr (JDict d1)"
    and "map_of d1 ''time'' = Some (JStr ''2024-01-01 10:00'')"
    and "open_save_file fs (slot_path SAVE_PATH 2) = Inr (JDict d2)"
    and "map_of d2 ''time'' = Some (JStr ''2024-03-15 09:30'')"
    and "fs (slot_path SAVE_PATH 3) = None"
  shows "get_index_of_latest_save strptime_time_format fs SAVE_PATH = Inr (Some 1)"
proof -
  have third: "open_save_file fs (slot_path SAVE_PATH 3) = Inr JNull"
    using assms(5) by (rule open_save_file_missing)
  have "scan_slots strptime_time_format fs SAVE_PATH [0, 1, 2] [] =
          Inr [(0, (2024, 1, 1, 10, 0)), (1, (2024, 3, 15, 9, 30))]"
    using assms(1-4) third
    by (simp add: getitem_def strptime_arg_def strptime_first strptime_second)
  then show ?thesis
    by (simp add: get_index_of_latest_save_def max_by_time_def first_before_second)
qed

theorem latest_of_two_slots_witness:
  "get_index_of_latest_save strptime_time_format two_slots ''slot'' = Inr (Some 1)"
proof -
  have t1: "map_of [(''time'', JStr ''2024-01-01 10:00'')] ''time'' = Some (JStr ''2024-01-01 10:00'')"
    by simp
  have t2: "map_of [(''time'', JStr ''2024-03-15 09:30'')] ''time'' = Some (JStr ''2024-03-15 09:30'')"
    by simp
  show ?thesis
    by (rule latest_of_two_slots [OF open_two_slots_1 t1 open_two_slots_2 t2 two_slots_3])
qed

text \<open>C3 as stated fails: the result is not the slot number 2.\<close>

theorem latest_of_two_slots_not_slot_number:
  "get_index_of_latest_save strptime_time_format two_slots ''slot'' \<noteq> Inr (Some 2)"
proof -
  have "open_save_file two_slots (slot_path ''slot'' 3) = Inr JNull"
    using two_slots_3 by (rule open_save_file_missing)
  then have "scan_slots strptime_time_format two_slots ''slot'' [0, 1, 2] [] =
          Inr [(0, (2024, 1, 1, 10, 0)), (1, (2024, 3, 15, 9, 30))]"
    by (simp add: open_two_slots_1 open_two_slots_2
        getitem_def strptime_arg_def strptime_first strptime_second)
  then show ?thesis
    by (simp add: get_index_of_latest_save_def max_by_time_def first_before_second)
qed

text \<open>
  Of two slots with the same time the first one read is the result, and so is an earlier
  slot with a later time: a later slot replaces the best one only on a greater time.
\<close>

lemma max_by_time_first_of_equals: "max_by_time [(i, t), (j, t)] = (i, t)"
  by (simp add: max_by_time_def)

lemma max_by_time_earlier_slot: "t1 < t2 \<Longrightarrow> max_by_time [(i, t2), (j, t1)] = (i, t2)"
  by (auto simp add: max_by_time_def)

text \<open>A slot without a file is passed over, and with no file at all the result is \<open>None\<close>.\<close>

lemma scan_slots_skips_missing:
  "fs (slot_path SAVE_PATH (slot_index + 1)) = None \<Longrightarrow>
   scan_slots strptime fs SAVE_PATH (slot_index # rest) acc =
   scan_slots strptime fs SAVE_PATH rest acc"
  by (simp add: open_save_file_missing)

lemma latest_all_missing:
  assumes "fs (slot_path SAVE_PATH 1) = None" and "fs (slot_path SAVE_PATH 2) = None"
    and "fs (slot_path SAVE_PATH 3) = None"
  shows "get_index_of_latest_save strptime fs SAVE_PATH = Inr None"
  using assms by (simp add: get_index_of_latest_save_def open_save_file_missing)

text \<open>
  A slot whose text is not JSON makes the loop raise: the exception of the second decoder
  leaves \<open>open_save_file\<close>, and had the second decoder failed with its decode error the
  slot would be read as the empty dictionary, which is not \<open>None\<close>, and indexed by
  \<open>'time'\<close>.
\<close>

lemma scan_slots_corrupt:
  assumes "fs (slot_path SAVE_PATH (slot_index + 1)) = Some file"
    and "json_load file = Raises ValueError" and "cbor_load file = Raises e"
    and "e \<noteq> IOError"
  shows "scan_slots strptime fs SAVE_PATH (slot_index # rest) acc =
           Inl (if e = ValueError then KeyError else e)"
  using assms by (cases e) (simp_all add: open_save_file_def getitem_def)

lemma scan_slots_raises_later:
  assumes "\<And>acc. \<exists>e. scan_slots strptime fs SAVE_PATH rest acc = Inl e"
  shows "\<exists>e. scan_slots strptime fs SAVE_PATH (slot_index # rest) acc = Inl e"
  using assms by (simp split: sum.splits)

text \<open>
  C4, what the code does against it. When the file of one of the slots 1 to 3 opens, is
  not JSON, and the second decoder raises (anything but \<open>IOError\<close>: \<open>EOFError\<close> at
  the end of the handle, \<open>NameError\<close> without the module, or its decode error),
  \<open>get_index_of_latest_save\<close> raises; the slot is not passed over. In
  \<open>garbage_second_slot\<close> the exception is the \<open>EOFError\<close> of the second decoder.
\<close>

theorem latest_raises_on_corrupt_slot:
  assumes "slot = 1 \<or> slot = 2 \<or> slot = 3"
    and "fs (slot_path SAVE_PATH slot) = Some file"
    and "json_load file = Raises ValueError" and "cbor_load file = Raises e"
    and "e \<noteq> IOError"
  shows "\<exists>e'. get_index_of_latest_save strptime fs SAVE_PATH = Inl e'"
proof -
  have "\<exists>e'. scan_slots strptime fs SAVE_PATH [0, 1, 2] [] = Inl e'"
  proof -
    consider "slot = 1" | "slot = 2" | "slot = 3" using assms(1) by auto
    then show ?thesis
    proof cases
      case 1
      with assms have "fs (slot_path SAVE_PATH (0 + 1)) = Some file" by simp
      from scan_slots_corrupt [of fs SAVE_PATH 0 "file" e, OF this assms(3,4,5)]
      show ?thesis by blast
    next
      case 2
      with assms have "fs (slot_path SAVE_PATH (1 + 1)) = Some file" by simp
      from scan_slots_corrupt [of fs SAVE_PATH 1 "file" e, OF this assms(3,4,5)]
      have "\<And>acc. \<exists>e'. scan_slots strptime fs SAVE_PATH [1, 2] acc = Inl e'" by blast
      then show ?thesis by (rule scan_slots_raises_later)
    next
      case 3
      with assms have "fs (slot_path SAVE_PATH (2 + 1)) = Some file" by simp
      from scan_slots_corrupt [of fs SAVE_PATH 2 "file" e, OF this assms(3,4,5)]
      have "\<And>acc. \<exists>e'. scan_slots strptime fs SAVE_PATH [2] acc = Inl e'" by blast
      then have "\<And>acc. \<exists>e'. scan_slots strptime fs SAVE_PATH [1, 2] acc = Inl e'"
        by (rule scan_slots_raises_later)
      then show ?thesis by (rule scan_slots_raises_later)
    qed
  qed
  then show ?thesis by (auto simp add: get_index_of_latest_save_def)
qed

theorem latest_raises_on_corrupt_slot_witness:
  "get_index_of_latest_save strptime_time_format garbage_second_slot ''slot'' = Inl EOFError"
proof -
  have "garbage_second_slot (slot_path ''slot'' 2) = Some garbage_file"
    by (simp add: slot_path_2 garbage_second_slot_def)
  then have
    "\<exists>e'. get_index_of_latest_save strptime_time_format garbage_second_slot ''slot'' = Inl e'"
    using latest_raises_on_corrupt_slot [of 2 garbage_second_slot "''slot''" garbage_file
        EOFError strptime_time_format]
    by (simp add: garbage_file_def)
  moreover have "scan_slots strptime_time_format garbage_second_slot ''slot'' [0, 1, 2] [] =
      Inl EOFError"
    by (simp add: slot_path_1 slot_path_2 garbage_second_slot_def open_save_file_def
        json_file_def garbage_file_def getitem_def strptime_arg_def strptime_first)
  ultimately show ?thesis by (simp add: get_index_of_latest_save_def)
qed

end
